theory Spec2Isabelle
  imports Main "HOL-Library.Word" "HOL-Library.Monad_Syntax"
begin

unbundle bit_operations_syntax

section \<open>Initial register state of a new thread on the Renesas SH-1\<close>

text \<open>
  The development embeds \<^verbatim>\<open>arch/renesas/src/sh1/sh1_initialstate.c\<close>: the
  inline helper \<^verbatim>\<open>up_getsr\<close> and the public function \<^verbatim>\<open>up_initial_state\<close>.
  The SH-1 is a 32-bit machine: addresses, \<^verbatim>\<open>uint32_t\<close>, \<^verbatim>\<open>size_t\<close> and
  \<^verbatim>\<open>irqstate_t\<close> are 32-bit words whose arithmetic wraps around.
\<close>

type_synonym u32 = "32 word"

subsection \<open>Constants of the build\<close>

text \<open>
  The function is compiled against constants that other headers of the tree define:
  the register indices \<^verbatim>\<open>REG_SP\<close>, \<^verbatim>\<open>REG_PC\<close>, \<^verbatim>\<open>REG_SR\<close> and the number
  of saved registers \<^verbatim>\<open>XCPTCONTEXT_REGS\<close> (the architecture's \<^verbatim>\<open>irq.h\<close>), the
  size of \<^verbatim>\<open>struct task_info_s\<close> (\<^verbatim>\<open>nuttx/tls.h\<close>), and the configuration
  symbols \<^verbatim>\<open>CONFIG_IDLETHREAD_STACKSIZE\<close>, \<^verbatim>\<open>CONFIG_SUPPRESS_INTERRUPTS\<close> and
  \<^verbatim>\<open>CONFIG_BUILD_KERNEL\<close> (\<^verbatim>\<open>nuttx/config.h\<close>). Their values are parameters
  of the model; the two symbols that are only tested with \<^verbatim>\<open>#ifdef\<close> are booleans.
\<close>

record config =
  REG_SP :: nat
  REG_PC :: nat
  REG_SR :: nat
  XCPTCONTEXT_REGS :: nat
  sizeof_task_info_s :: u32
  CONFIG_IDLETHREAD_STACKSIZE :: u32
  CONFIG_SUPPRESS_INTERRUPTS :: bool
  CONFIG_BUILD_KERNEL :: bool

text \<open>
  The three indices name three different elements of the array
  \<^verbatim>\<open>regs[XCPTCONTEXT_REGS]\<close>.
\<close>

definition layout_ok :: "config \<Rightarrow> bool" where
  "layout_ok c \<longleftrightarrow>
     REG_SP c < XCPTCONTEXT_REGS c \<and> REG_PC c < XCPTCONTEXT_REGS c \<and>
     REG_SR c < XCPTCONTEXT_REGS c \<and>
     REG_SP c \<noteq> REG_PC c \<and> REG_SP c \<noteq> REG_SR c \<and> REG_PC c \<noteq> REG_SR c"

subsection \<open>Data\<close>

text \<open>
  \<^verbatim>\<open>struct xcptcontext\<close>: the register save area, the only member the function
  names.
\<close>

record xcptcontext =
  regs :: "u32 list"

text \<open>
  \<^verbatim>\<open>struct tcb_s\<close>: the members the function reads or writes. Every other
  member of the structure is carried by the extension part of the record.
\<close>

record tcb_s =
  pid :: u32  \<comment> \<open>\<^verbatim>\<open>pid_t\<close>; the function only compares it with 0\<close>
  stack_alloc_ptr :: u32
  stack_base_ptr :: u32
  adj_stack_size :: u32
  start :: u32
  xcp :: xcptcontext

text \<open>
  The state the function runs in: the global \<^verbatim>\<open>g_idle_topstack\<close>, the status
  register of the processor (what \<^verbatim>\<open>stc sr, Rn\<close> reads), and the task control
  blocks in memory, by address.
\<close>

record 'a machine =
  g_idle_topstack :: u32
  sr :: u32
  tcbs :: "u32 \<rightharpoonup> 'a tcb_s_scheme"

subsection \<open>Operations\<close>

text \<open>\<^verbatim>\<open>up_getsr\<close> returns the status register and changes nothing.\<close>

definition up_getsr :: "'a machine \<Rightarrow> u32" where
  "up_getsr s = sr s"

text \<open>
  \<^verbatim>\<open>memset(xcp, 0, sizeof(struct xcptcontext))\<close>: every element of the save area
  becomes zero, whatever it held before.
\<close>

definition memset_xcptcontext :: "config \<Rightarrow> xcptcontext \<Rightarrow> xcptcontext" where
  "memset_xcptcontext c x = x\<lparr>regs := replicate (XCPTCONTEXT_REGS c) 0\<rparr>"

text \<open>
  The assignment \<^verbatim>\<open>xcp->regs[i] = v\<close>. C gives no meaning to a store outside
  the array: the model has no result there.
\<close>

definition store_reg :: "nat \<Rightarrow> u32 \<Rightarrow> xcptcontext \<Rightarrow> xcptcontext option" where
  "store_reg i v x =
     (if i < length (regs x) then Some (x\<lparr>regs := (regs x)[i := v]\<rparr>) else None)"

text \<open>
  The branch for the idle thread, \<^verbatim>\<open>if (tcb->pid == 0) { ... }\<close>: the three
  assignments in the order of the source.
\<close>

definition idle_stack :: "config \<Rightarrow> u32 \<Rightarrow> 'a tcb_s_scheme \<Rightarrow> 'a tcb_s_scheme" where
  "idle_stack c topstack tcb =
     (let tcb1 = tcb\<lparr>stack_alloc_ptr := topstack - CONFIG_IDLETHREAD_STACKSIZE c\<rparr>;
          tcb2 = tcb1\<lparr>stack_base_ptr := stack_alloc_ptr tcb1\<rparr>
      in tcb2\<lparr>adj_stack_size := CONFIG_IDLETHREAD_STACKSIZE c - sizeof_task_info_s c\<rparr>)"

text \<open>
  The value stored in the status slot: \<^verbatim>\<open>up_getsr() | 0x000000f0\<close> under
  \<^verbatim>\<open>CONFIG_SUPPRESS_INTERRUPTS\<close>, \<^verbatim>\<open>up_getsr() & ~0x000000f0\<close> otherwise.
\<close>

definition initial_sr :: "config \<Rightarrow> u32 \<Rightarrow> u32" where
  "initial_sr c flags =
     (if CONFIG_SUPPRESS_INTERRUPTS c then flags OR 0x000000f0
      else flags AND NOT 0x000000f0)"

text \<open>
  \<^verbatim>\<open>up_initial_state(tcb)\<close>, with \<open>p\<close> the address passed as \<^verbatim>\<open>tcb\<close>. An
  address that holds no task control block has no result.
\<close>

definition up_initial_state :: "config \<Rightarrow> u32 \<Rightarrow> 'a machine \<Rightarrow> 'a machine option" where
  "up_initial_state c p s =
     (case tcbs s p of
        None \<Rightarrow> None
      | Some tcb \<Rightarrow>
          (let tcb1 = (if pid tcb = 0 then idle_stack c (g_idle_topstack s) tcb else tcb);
               xcp0 = memset_xcptcontext c (xcp tcb1)
           in do {
                xcp1 \<leftarrow> store_reg (REG_SP c) (stack_base_ptr tcb1 + adj_stack_size tcb1) xcp0;
                xcp2 \<leftarrow> store_reg (REG_PC c) (start tcb1) xcp1;
                xcp3 \<leftarrow> store_reg (REG_SR c) (initial_sr c (up_getsr s)) xcp2;
                Some (s\<lparr>tcbs := (tcbs s)(p \<mapsto> tcb1\<lparr>xcp := xcp3\<rparr>)\<rparr>)
              }))"

text \<open>
  The translation unit as a function of the configuration: the directive
  \<^verbatim>\<open>#error\<close> under \<^verbatim>\<open>#ifdef CONFIG_BUILD_KERNEL\<close> stops the compilation with
  its message, and no \<^verbatim>\<open>up_initial_state\<close> is produced; otherwise the compiled
  function is the one above.
\<close>

datatype build_error = Error_directive string

definition sh1_initialstate ::
  "config \<Rightarrow> build_error + (u32 \<Rightarrow> 'a machine \<Rightarrow> 'a machine option)" where
  "sh1_initialstate c =
     (if CONFIG_BUILD_KERNEL c
      then Inl (Error_directive ''Missing logic for the CONFIG_BUILD_KERNEL build'')
      else Inr (up_initial_state c))"

subsection \<open>A concrete machine\<close>

text \<open>
  A layout with twenty-two saved registers (the stack pointer at index 11, the
  program counter at 20, the status register at 21), an idle stack of
  \<open>0x1000\<close> bytes below \<open>0x8000\<close>, and a task information block of \<open>0x40\<close>
  bytes. The machine holds the idle thread, a task with identifier 5, entry point
  \<open>0x1000\<close> and stack \<open>{base = 0x2000, size = 0x400}\<close>, and a second task with
  the same entry point and stack but another save area.
\<close>

definition sh1_config :: config where
  "sh1_config = \<lparr>REG_SP = 11, REG_PC = 20, REG_SR = 21, XCPTCONTEXT_REGS = 22,
     sizeof_task_info_s = 0x40, CONFIG_IDLETHREAD_STACKSIZE = 0x1000,
     CONFIG_SUPPRESS_INTERRUPTS = False, CONFIG_BUILD_KERNEL = False\<rparr>"

definition masked_config :: config where
  "masked_config = sh1_config\<lparr>CONFIG_SUPPRESS_INTERRUPTS := True\<rparr>"

definition kernel_config :: config where
  "kernel_config = sh1_config\<lparr>CONFIG_BUILD_KERNEL := True\<rparr>"

definition idle_tcb :: tcb_s where
  "idle_tcb = \<lparr>pid = 0, stack_alloc_ptr = 0, stack_base_ptr = 0, adj_stack_size = 0,
     start = 0x500, xcp = \<lparr>regs = replicate 22 0xdeadbeef\<rparr>\<rparr>"

definition task5_tcb :: tcb_s where
  "task5_tcb = \<lparr>pid = 5, stack_alloc_ptr = 0x2000, stack_base_ptr = 0x2000,
     adj_stack_size = 0x400, start = 0x1000, xcp = \<lparr>regs = replicate 22 0xdeadbeef\<rparr>\<rparr>"

definition task6_tcb :: tcb_s where
  "task6_tcb = \<lparr>pid = 6, stack_alloc_ptr = 0x1ff0, stack_base_ptr = 0x2000,
     adj_stack_size = 0x400, start = 0x1000, xcp = \<lparr>regs = replicate 22 0\<rparr>\<rparr>"

definition boot_machine :: "unit machine" where
  "boot_machine = \<lparr>g_idle_topstack = 0x8000, sr = 0x51,
      tcbs = [0x100 \<mapsto> idle_tcb, 0x200 \<mapsto> task5_tcb, 0x300 \<mapsto> task6_tcb]\<rparr>"

text \<open>The idle thread's control block as the call leaves it on that machine.\<close>

definition idle_tcb_built :: tcb_s where
  "idle_tcb_built = \<lparr>pid = 0, stack_alloc_ptr = 0x7000, stack_base_ptr = 0x7000,
     adj_stack_size = 0xFC0, start = 0x500,
     xcp = \<lparr>regs = [0, 0, 0, 0, 0, 0, 0, 0, 0, 0, 0, 0x7FC0, 0, 0, 0, 0, 0, 0, 0, 0,
                     0x500, 0x01]\<rparr>\<rparr>"

section \<open>The result of the call in closed form\<close>

text \<open>
  With the three indices inside the array and a control block at the address, the call
  returns, and the new state is the old one with one control block replaced. The two
  lemmas give that block for an ordinary task and for the idle thread.
\<close>

lemma up_initial_state_task:
  assumes "layout_ok c" and "tcbs s p = Some tcb" and "pid tcb \<noteq> 0"
  shows "up_initial_state c p s =
     Some (s\<lparr>tcbs := (tcbs s)(p \<mapsto> tcb\<lparr>xcp := (xcp tcb)\<lparr>regs :=
        (replicate (XCPTCONTEXT_REGS c) 0)
          [REG_SP c := stack_base_ptr tcb + adj_stack_size tcb,
           REG_PC c := start tcb,
           REG_SR c := initial_sr c (sr s)]\<rparr>\<rparr>)\<rparr>)"
  using assms
  by (simp add: up_initial_state_def layout_ok_def store_reg_def memset_xcptcontext_def
      up_getsr_def)

lemma up_initial_state_idle:
  assumes "layout_ok c" and "tcbs s p = Some tcb" and "pid tcb = 0"
  shows "up_initial_state c p s =
     Some (s\<lparr>tcbs := (tcbs s)(p \<mapsto> tcb\<lparr>
        stack_alloc_ptr := g_idle_topstack s - CONFIG_IDLETHREAD_STACKSIZE c,
        stack_base_ptr := g_idle_topstack s - CONFIG_IDLETHREAD_STACKSIZE c,
        adj_stack_size := CONFIG_IDLETHREAD_STACKSIZE c - sizeof_task_info_s c,
        xcp := (xcp tcb)\<lparr>regs :=
        (replicate (XCPTCONTEXT_REGS c) 0)
          [REG_SP c := g_idle_topstack s - sizeof_task_info_s c,
           REG_PC c := start tcb,
           REG_SR c := initial_sr c (sr s)]\<rparr>\<rparr>)\<rparr>)"
  using assms
  by (simp add: up_initial_state_def layout_ok_def store_reg_def memset_xcptcontext_def
      up_getsr_def idle_stack_def Let_def)

text \<open>
  Both cases at once: the save area of the block the call leaves behind, in terms of
  that block's own stack fields.
\<close>

lemma up_initial_state_regs:
  assumes "layout_ok c" and "tcbs s p = Some tcb"
  obtains s' tcb' where "up_initial_state c p s = Some s'" and "tcbs s' p = Some tcb'"
    and "regs (xcp tcb') = (replicate (XCPTCONTEXT_REGS c) 0)
          [REG_SP c := stack_base_ptr tcb' + adj_stack_size tcb',
           REG_PC c := start tcb,
           REG_SR c := initial_sr c (up_getsr s)]"
proof (cases "pid tcb = 0")
  case True
  from up_initial_state_idle [OF assms True] that show ?thesis
    by (simp add: up_getsr_def)
next
  case False
  from up_initial_state_task [OF assms False] that show ?thesis
    by (simp add: up_getsr_def)
qed

subsection \<open>The interrupt mask bits\<close>

lemma or_and_same: "((x::u32) OR m) AND m = m"
  by (auto simp add: bit_eq_iff bit_and_iff bit_or_iff)

lemma and_not_and_same: "((x::u32) AND NOT m) AND m = 0"
  by (auto simp add: bit_eq_iff bit_and_iff bit_not_iff)

lemma or_and_not_same: "((x::u32) OR m) AND NOT m = x AND NOT m"
  by (auto simp add: bit_eq_iff bit_and_iff bit_or_iff bit_not_iff)

lemma and_not_and_not_same: "((x::u32) AND NOT m) AND NOT m = x AND NOT m"
  by (auto simp add: bit_eq_iff bit_and_iff bit_not_iff)

lemma initial_sr_mask:
  "initial_sr c flags AND 0x000000f0 = (if CONFIG_SUPPRESS_INTERRUPTS c then 0x000000f0 else 0)"
  unfolding initial_sr_def
  using or_and_same [of flags "0x000000f0"] and_not_and_same [of flags "0x000000f0"]
  by (simp split: if_splits)

lemma initial_sr_rest:
  "initial_sr c flags AND NOT 0x000000f0 = flags AND NOT 0x000000f0"
  unfolding initial_sr_def
  using or_and_not_same [of flags "0x000000f0"] and_not_and_not_same [of flags "0x000000f0"]
  by (simp split: if_splits)

subsection \<open>Facts about the concrete machine\<close>

lemma layout_ok_sh1: "layout_ok sh1_config"
  by (simp add: layout_ok_def sh1_config_def)

lemma layout_ok_masked: "layout_ok masked_config"
  by (simp add: layout_ok_def masked_config_def sh1_config_def)

lemma boot_idle: "tcbs boot_machine 0x100 = Some idle_tcb"
  by (simp add: boot_machine_def)

lemma boot_task5: "tcbs boot_machine 0x200 = Some task5_tcb"
  by (simp add: boot_machine_def)

lemma boot_task6: "tcbs boot_machine 0x300 = Some task6_tcb"
  by (simp add: boot_machine_def)

lemma boot_globals: "g_idle_topstack boot_machine = 0x8000" "sr boot_machine = 0x51"
  by (simp_all add: boot_machine_def)

lemma idle_pid: "pid idle_tcb = 0"
  by (simp add: idle_tcb_def)

lemma replicate_22: "replicate 22 (x::u32) = [x,x,x,x,x,x,x,x,x,x,x,x,x,x,x,x,x,x,x,x,x,x]"
  by (simp add: numeral_eq_Suc)

lemma idle_run:
  "up_initial_state sh1_config 0x100 boot_machine =
     Some (boot_machine\<lparr>tcbs := (tcbs boot_machine)(0x100 \<mapsto> idle_tcb_built)\<rparr>)"
  unfolding up_initial_state_idle [OF layout_ok_sh1 boot_idle idle_pid]
  by (simp add: idle_tcb_def idle_tcb_built_def sh1_config_def boot_globals initial_sr_def
      replicate_22)

section \<open>The claims\<close>

text \<open>
  In every statement \<open>s\<close> is the state before the call, \<open>p\<close> the address passed
  to it, \<open>tcb\<close> the control block found there, \<open>s'\<close> the state after the call and
  \<open>tcb'\<close> the control block at \<open>p\<close> in \<open>s'\<close>. Each statement says that the
  call returns and what holds of its result.
\<close>

subsection \<open>The stack of the idle thread\<close>

text \<open>
  Claim C1, as amended. For the idle thread (\<open>pid = 0\<close>) the resolved stack size is
  the configured idle stack size minus the size of the task information block, and the
  resolved stack starts at the bottom of the idle stack area: its base is
  \<open>g_idle_topstack - CONFIG_IDLETHREAD_STACKSIZE\<close>, so base plus size, and with it
  the stack pointer slot, is \<open>g_idle_topstack\<close> minus the size of the task
  information block. With an idle stack of \<open>0x1000\<close>, a block of \<open>0x40\<close> and the
  top of the area at \<open>0x8000\<close>, the size is \<open>0xFC0\<close> and the stack pointer slot
  is \<open>0x7FC0\<close>.
\<close>

theorem idle_carve_out:
  assumes "layout_ok c" and "tcbs s p = Some tcb" and "pid tcb = 0"
  shows "\<exists>s' tcb'. up_initial_state c p s = Some s' \<and> tcbs s' p = Some tcb' \<and>
           adj_stack_size tcb' = CONFIG_IDLETHREAD_STACKSIZE c - sizeof_task_info_s c \<and>
           stack_base_ptr tcb' = g_idle_topstack s - CONFIG_IDLETHREAD_STACKSIZE c \<and>
           stack_base_ptr tcb' + adj_stack_size tcb' = g_idle_topstack s - sizeof_task_info_s c \<and>
           regs (xcp tcb') ! REG_SP c = g_idle_topstack s - sizeof_task_info_s c \<and>
           (CONFIG_IDLETHREAD_STACKSIZE c = 0x1000 \<and> sizeof_task_info_s c = 0x40 \<and>
            g_idle_topstack s = 0x8000 \<longrightarrow>
              adj_stack_size tcb' = 0xFC0 \<and> regs (xcp tcb') ! REG_SP c = 0x7FC0)"
proof -
  let ?t = "tcb\<lparr>
        stack_alloc_ptr := g_idle_topstack s - CONFIG_IDLETHREAD_STACKSIZE c,
        stack_base_ptr := g_idle_topstack s - CONFIG_IDLETHREAD_STACKSIZE c,
        adj_stack_size := CONFIG_IDLETHREAD_STACKSIZE c - sizeof_task_info_s c,
        xcp := (xcp tcb)\<lparr>regs :=
        (replicate (XCPTCONTEXT_REGS c) 0)
          [REG_SP c := g_idle_topstack s - sizeof_task_info_s c,
           REG_PC c := start tcb,
           REG_SR c := initial_sr c (sr s)]\<rparr>\<rparr>"
  let ?s = "s\<lparr>tcbs := (tcbs s)(p \<mapsto> ?t)\<rparr>"
  have run: "up_initial_state c p s = Some ?s"
    by (rule up_initial_state_idle [OF assms])
  have at: "tcbs ?s p = Some ?t" by simp
  have size: "adj_stack_size ?t = CONFIG_IDLETHREAD_STACKSIZE c - sizeof_task_info_s c"
    by simp
  have base: "stack_base_ptr ?t = g_idle_topstack s - CONFIG_IDLETHREAD_STACKSIZE c"
    by simp
  have top: "stack_base_ptr ?t + adj_stack_size ?t = g_idle_topstack s - sizeof_task_info_s c"
    by simp
  from assms(1) have sp: "regs (xcp ?t) ! REG_SP c = g_idle_topstack s - sizeof_task_info_s c"
    by (simp add: layout_ok_def)
  have "CONFIG_IDLETHREAD_STACKSIZE c = 0x1000 \<and> sizeof_task_info_s c = 0x40 \<and>
            g_idle_topstack s = 0x8000 \<longrightarrow>
              adj_stack_size ?t = 0xFC0 \<and> regs (xcp ?t) ! REG_SP c = 0x7FC0"
    unfolding sp size by simp
  with run at size base top sp show ?thesis by blast
qed

text \<open>
  The theorem on the concrete machine: the scenario of the claim.
\<close>

theorem idle_carve_out_witness:
  "layout_ok sh1_config \<and> tcbs boot_machine 0x100 = Some idle_tcb \<and> pid idle_tcb = 0 \<and>
   (\<exists>s' tcb'. up_initial_state sh1_config 0x100 boot_machine = Some s' \<and>
      tcbs s' 0x100 = Some tcb' \<and> adj_stack_size tcb' = 0xFC0 \<and>
      stack_base_ptr tcb' = 0x7000 \<and>
      stack_base_ptr tcb' + adj_stack_size tcb' = 0x7FC0 \<and>
      regs (xcp tcb') ! 11 = 0x7FC0)"
proof -
  from idle_carve_out [OF layout_ok_sh1 boot_idle idle_pid]
  have "\<exists>s' tcb'. up_initial_state sh1_config 0x100 boot_machine = Some s' \<and>
      tcbs s' 0x100 = Some tcb' \<and> adj_stack_size tcb' = 0xFC0 \<and>
      stack_base_ptr tcb' = 0x7000 \<and>
      stack_base_ptr tcb' + adj_stack_size tcb' = 0x7FC0 \<and>
      regs (xcp tcb') ! 11 = 0x7FC0"
    by (auto simp add: boot_globals sh1_config_def)
  with layout_ok_sh1 boot_idle idle_pid show ?thesis by simp
qed

text \<open>
  Claim C1, as it is written, fails on that scenario: base plus size is not the top of
  the idle area, and the stack pointer slot is \<open>0x7FC0\<close>, not \<open>0x8000\<close>.
\<close>

theorem idle_scenario_counterexample:
  "pid idle_tcb = 0 \<and> layout_ok sh1_config \<and>
   CONFIG_IDLETHREAD_STACKSIZE sh1_config = 0x1000 \<and> sizeof_task_info_s sh1_config = 0x40 \<and>
   g_idle_topstack boot_machine = 0x8000 \<and> tcbs boot_machine 0x100 = Some idle_tcb \<and>
   up_initial_state sh1_config 0x100 boot_machine =
     Some (boot_machine\<lparr>tcbs := (tcbs boot_machine)(0x100 \<mapsto> idle_tcb_built)\<rparr>) \<and>
   adj_stack_size idle_tcb_built = 0xFC0 \<and>
   stack_base_ptr idle_tcb_built + adj_stack_size idle_tcb_built \<noteq> g_idle_topstack boot_machine \<and>
   regs (xcp idle_tcb_built) ! REG_SP sh1_config = 0x7FC0 \<and>
   regs (xcp idle_tcb_built) ! REG_SP sh1_config \<noteq> 0x8000"
  using idle_run layout_ok_sh1 boot_idle
  by (simp add: idle_pid boot_globals idle_tcb_built_def sh1_config_def)

text \<open>
  Claim C10. For the idle thread the call sets \<^verbatim>\<open>stack_alloc_ptr\<close> and
  \<^verbatim>\<open>stack_base_ptr\<close> both to \<open>g_idle_topstack - CONFIG_IDLETHREAD_STACKSIZE\<close>,
  and the stack pointer slot to \<open>g_idle_topstack\<close> minus the size of
  \<^verbatim>\<open>struct task_info_s\<close>: the space of that block lies between the initial stack
  pointer and \<open>g_idle_topstack\<close>.
\<close>

theorem idle_stack_layout:
  assumes "layout_ok c" and "tcbs s p = Some tcb" and "pid tcb = 0"
  shows "\<exists>s' tcb'. up_initial_state c p s = Some s' \<and> tcbs s' p = Some tcb' \<and>
           stack_alloc_ptr tcb' = g_idle_topstack s - CONFIG_IDLETHREAD_STACKSIZE c \<and>
           stack_base_ptr tcb' = g_idle_topstack s - CONFIG_IDLETHREAD_STACKSIZE c \<and>
           regs (xcp tcb') ! REG_SP c = g_idle_topstack s - sizeof_task_info_s c \<and>
           regs (xcp tcb') ! REG_SP c + sizeof_task_info_s c = g_idle_topstack s"
proof -
  let ?t = "tcb\<lparr>
        stack_alloc_ptr := g_idle_topstack s - CONFIG_IDLETHREAD_STACKSIZE c,
        stack_base_ptr := g_idle_topstack s - CONFIG_IDLETHREAD_STACKSIZE c,
        adj_stack_size := CONFIG_IDLETHREAD_STACKSIZE c - sizeof_task_info_s c,
        xcp := (xcp tcb)\<lparr>regs :=
        (replicate (XCPTCONTEXT_REGS c) 0)
          [REG_SP c := g_idle_topstack s - sizeof_task_info_s c,
           REG_PC c := start tcb,
           REG_SR c := initial_sr c (sr s)]\<rparr>\<rparr>"
  let ?s = "s\<lparr>tcbs := (tcbs s)(p \<mapsto> ?t)\<rparr>"
  have run: "up_initial_state c p s = Some ?s"
    by (rule up_initial_state_idle [OF assms])
  have at: "tcbs ?s p = Some ?t" by simp
  have alloc: "stack_alloc_ptr ?t = g_idle_topstack s - CONFIG_IDLETHREAD_STACKSIZE c"
    by simp
  have base: "stack_base_ptr ?t = g_idle_topstack s - CONFIG_IDLETHREAD_STACKSIZE c"
    by simp
  from assms(1) have sp: "regs (xcp ?t) ! REG_SP c = g_idle_topstack s - sizeof_task_info_s c"
    by (simp add: layout_ok_def)
  have gap: "regs (xcp ?t) ! REG_SP c + sizeof_task_info_s c = g_idle_topstack s"
    unfolding sp by simp
  from run at alloc base sp gap show ?thesis by blast
qed

text \<open>
  The theorem on the concrete machine.
\<close>

theorem idle_stack_layout_witness:
  "layout_ok sh1_config \<and> tcbs boot_machine 0x100 = Some idle_tcb \<and> pid idle_tcb = 0 \<and>
   (\<exists>s' tcb'. up_initial_state sh1_config 0x100 boot_machine = Some s' \<and>
      tcbs s' 0x100 = Some tcb' \<and> stack_alloc_ptr tcb' = 0x7000 \<and>
      stack_base_ptr tcb' = 0x7000 \<and> regs (xcp tcb') ! 11 = 0x7FC0 \<and>
      regs (xcp tcb') ! 11 + 0x40 = 0x8000)"
proof -
  from idle_stack_layout [OF layout_ok_sh1 boot_idle idle_pid]
  have "\<exists>s' tcb'. up_initial_state sh1_config 0x100 boot_machine = Some s' \<and>
      tcbs s' 0x100 = Some tcb' \<and> stack_alloc_ptr tcb' = 0x7000 \<and>
      stack_base_ptr tcb' = 0x7000 \<and> regs (xcp tcb') ! 11 = 0x7FC0 \<and>
      regs (xcp tcb') ! 11 + 0x40 = 0x8000"
    by (auto simp add: boot_globals sh1_config_def)
  with layout_ok_sh1 boot_idle idle_pid show ?thesis by simp
qed

subsection \<open>The register context image\<close>

text \<open>
  Claim C2. After the call every slot of the save area other than the stack pointer,
  the program counter and the status register is zero; the save area has
  \<^verbatim>\<open>XCPTCONTEXT_REGS\<close> slots.
\<close>

theorem zero_invariant:
  assumes "layout_ok c" and "tcbs s p = Some tcb"
  shows "\<exists>s' tcb'. up_initial_state c p s = Some s' \<and> tcbs s' p = Some tcb' \<and>
           length (regs (xcp tcb')) = XCPTCONTEXT_REGS c \<and>
           (\<forall>i < XCPTCONTEXT_REGS c. i \<noteq> REG_SP c \<longrightarrow> i \<noteq> REG_PC c \<longrightarrow> i \<noteq> REG_SR c \<longrightarrow>
              regs (xcp tcb') ! i = 0)"
proof -
  from assms obtain s' tcb' where r: "up_initial_state c p s = Some s'" "tcbs s' p = Some tcb'"
    and img: "regs (xcp tcb') = (replicate (XCPTCONTEXT_REGS c) 0)
          [REG_SP c := stack_base_ptr tcb' + adj_stack_size tcb',
           REG_PC c := start tcb,
           REG_SR c := initial_sr c (up_getsr s)]"
    by (rule up_initial_state_regs)
  have len: "length (regs (xcp tcb')) = XCPTCONTEXT_REGS c"
    unfolding img by simp
  have "\<forall>i < XCPTCONTEXT_REGS c. i \<noteq> REG_SP c \<longrightarrow> i \<noteq> REG_PC c \<longrightarrow> i \<noteq> REG_SR c \<longrightarrow>
              regs (xcp tcb') ! i = 0"
    unfolding img by simp
  with r len show ?thesis by blast
qed

text \<open>
  The theorem on task 5 of the concrete machine, whose save area held
  \<open>0xdeadbeef\<close> in every slot before the call.
\<close>

theorem zero_invariant_witness:
  "layout_ok sh1_config \<and> tcbs boot_machine 0x200 = Some task5_tcb \<and>
   (\<exists>s' tcb'. up_initial_state sh1_config 0x200 boot_machine = Some s' \<and>
      tcbs s' 0x200 = Some tcb' \<and> length (regs (xcp tcb')) = 22 \<and>
      regs (xcp tcb') ! 0 = 0 \<and> regs (xcp tcb') ! 12 = 0 \<and> regs (xcp tcb') ! 19 = 0)"
proof -
  from zero_invariant [OF layout_ok_sh1 boot_task5]
  have "\<exists>s' tcb'. up_initial_state sh1_config 0x200 boot_machine = Some s' \<and>
      tcbs s' 0x200 = Some tcb' \<and> length (regs (xcp tcb')) = 22 \<and>
      regs (xcp tcb') ! 0 = 0 \<and> regs (xcp tcb') ! 12 = 0 \<and> regs (xcp tcb') ! 19 = 0"
    by (auto simp add: sh1_config_def)
  with layout_ok_sh1 boot_task5 show ?thesis by simp
qed

text \<open>
  Claim C3. After the call the stack pointer slot is \<^verbatim>\<open>stack_base_ptr\<close> plus
  \<^verbatim>\<open>adj_stack_size\<close> of the control block as the call leaves it, that is, after
  the override for the idle thread; for any other task these are the values the block
  came with.
\<close>

theorem stack_top_fidelity:
  assumes "layout_ok c" and "tcbs s p = Some tcb"
  shows "\<exists>s' tcb'. up_initial_state c p s = Some s' \<and> tcbs s' p = Some tcb' \<and>
           regs (xcp tcb') ! REG_SP c = stack_base_ptr tcb' + adj_stack_size tcb' \<and>
           (pid tcb \<noteq> 0 \<longrightarrow>
              regs (xcp tcb') ! REG_SP c = stack_base_ptr tcb + adj_stack_size tcb)"
proof -
  from assms obtain s' tcb' where r: "up_initial_state c p s = Some s'" "tcbs s' p = Some tcb'"
    and img: "regs (xcp tcb') = (replicate (XCPTCONTEXT_REGS c) 0)
          [REG_SP c := stack_base_ptr tcb' + adj_stack_size tcb',
           REG_PC c := start tcb,
           REG_SR c := initial_sr c (up_getsr s)]"
    by (rule up_initial_state_regs)
  from assms(1) have sp: "regs (xcp tcb') ! REG_SP c = stack_base_ptr tcb' + adj_stack_size tcb'"
    unfolding img by (simp add: layout_ok_def)
  have "pid tcb \<noteq> 0 \<longrightarrow> regs (xcp tcb') ! REG_SP c = stack_base_ptr tcb + adj_stack_size tcb"
  proof
    assume "pid tcb \<noteq> 0"
    from r up_initial_state_task [OF assms this] have "tcb' = tcb\<lparr>xcp := xcp tcb'\<rparr>"
      by auto
    then have "stack_base_ptr tcb' = stack_base_ptr tcb" "adj_stack_size tcb' = adj_stack_size tcb"
      by (metis tcb_s.select_convs tcb_s.surjective tcb_s.update_convs)+
    with sp show "regs (xcp tcb') ! REG_SP c = stack_base_ptr tcb + adj_stack_size tcb"
      by simp
  qed
  with r sp show ?thesis by blast
qed

text \<open>
  The theorem on task 5 of the concrete machine.
\<close>

theorem stack_top_fidelity_witness:
  "layout_ok sh1_config \<and> tcbs boot_machine 0x200 = Some task5_tcb \<and> pid task5_tcb \<noteq> 0 \<and>
   (\<exists>s' tcb'. up_initial_state sh1_config 0x200 boot_machine = Some s' \<and>
      tcbs s' 0x200 = Some tcb' \<and>
      regs (xcp tcb') ! 11 = stack_base_ptr tcb' + adj_stack_size tcb' \<and>
      regs (xcp tcb') ! 11 = 0x2400)"
proof -
  have n: "pid task5_tcb \<noteq> 0" by (simp add: task5_tcb_def)
  from stack_top_fidelity [OF layout_ok_sh1 boot_task5]
  have "\<exists>s' tcb'. up_initial_state sh1_config 0x200 boot_machine = Some s' \<and>
      tcbs s' 0x200 = Some tcb' \<and>
      regs (xcp tcb') ! 11 = stack_base_ptr tcb' + adj_stack_size tcb' \<and>
      regs (xcp tcb') ! 11 = 0x2400"
    by (auto simp add: sh1_config_def task5_tcb_def)
  with n layout_ok_sh1 boot_task5 show ?thesis by simp
qed

text \<open>
  Claim C4. After the call the program counter slot is the entry point
  \<^verbatim>\<open>tcb->start\<close>, for every task identifier, zero included.
\<close>

theorem entry_point_fidelity:
  assumes "layout_ok c" and "tcbs s p = Some tcb"
  shows "\<exists>s' tcb'. up_initial_state c p s = Some s' \<and> tcbs s' p = Some tcb' \<and>
           regs (xcp tcb') ! REG_PC c = start tcb"
proof -
  from assms obtain s' tcb' where r: "up_initial_state c p s = Some s'" "tcbs s' p = Some tcb'"
    and img: "regs (xcp tcb') = (replicate (XCPTCONTEXT_REGS c) 0)
          [REG_SP c := stack_base_ptr tcb' + adj_stack_size tcb',
           REG_PC c := start tcb,
           REG_SR c := initial_sr c (up_getsr s)]"
    by (rule up_initial_state_regs)
  from assms(1) have "regs (xcp tcb') ! REG_PC c = start tcb"
    unfolding img by (simp add: layout_ok_def)
  with r show ?thesis by blast
qed

text \<open>
  The theorem on task 5 and on the idle thread of the concrete machine.
\<close>

theorem entry_point_fidelity_witness:
  "layout_ok sh1_config \<and> tcbs boot_machine 0x200 = Some task5_tcb \<and>
   tcbs boot_machine 0x100 = Some idle_tcb \<and>
   (\<exists>s' tcb'. up_initial_state sh1_config 0x200 boot_machine = Some s' \<and>
      tcbs s' 0x200 = Some tcb' \<and> regs (xcp tcb') ! 20 = 0x1000) \<and>
   (\<exists>s' tcb'. up_initial_state sh1_config 0x100 boot_machine = Some s' \<and>
      tcbs s' 0x100 = Some tcb' \<and> regs (xcp tcb') ! 20 = 0x500)"
proof -
  from entry_point_fidelity [OF layout_ok_sh1 boot_task5]
  have task: "\<exists>s' tcb'. up_initial_state sh1_config 0x200 boot_machine = Some s' \<and>
      tcbs s' 0x200 = Some tcb' \<and> regs (xcp tcb') ! 20 = 0x1000"
    by (simp add: sh1_config_def task5_tcb_def)
  from entry_point_fidelity [OF layout_ok_sh1 boot_idle]
  have idle: "\<exists>s' tcb'. up_initial_state sh1_config 0x100 boot_machine = Some s' \<and>
      tcbs s' 0x100 = Some tcb' \<and> regs (xcp tcb') ! 20 = 0x500"
    by (simp add: sh1_config_def idle_tcb_def)
  from task idle layout_ok_sh1 boot_task5 boot_idle show ?thesis by simp
qed

text \<open>
  Claim C5. After the call the status slot is the value \<^verbatim>\<open>up_getsr\<close> reads
  in the state of the call, with the bits \<open>0x000000f0\<close> set when
  \<^verbatim>\<open>CONFIG_SUPPRESS_INTERRUPTS\<close> is defined and cleared otherwise; the other bits
  are those of the value read.
\<close>

theorem interrupt_policy:
  assumes "layout_ok c" and "tcbs s p = Some tcb"
  shows "\<exists>s' tcb'. up_initial_state c p s = Some s' \<and> tcbs s' p = Some tcb' \<and>
           regs (xcp tcb') ! REG_SR c =
             (if CONFIG_SUPPRESS_INTERRUPTS c then up_getsr s OR 0x000000f0
              else up_getsr s AND NOT 0x000000f0) \<and>
           regs (xcp tcb') ! REG_SR c AND 0x000000f0 =
             (if CONFIG_SUPPRESS_INTERRUPTS c then 0x000000f0 else 0) \<and>
           regs (xcp tcb') ! REG_SR c AND NOT 0x000000f0 = up_getsr s AND NOT 0x000000f0"
proof -
  from assms obtain s' tcb' where r: "up_initial_state c p s = Some s'" "tcbs s' p = Some tcb'"
    and img: "regs (xcp tcb') = (replicate (XCPTCONTEXT_REGS c) 0)
          [REG_SP c := stack_base_ptr tcb' + adj_stack_size tcb',
           REG_PC c := start tcb,
           REG_SR c := initial_sr c (up_getsr s)]"
    by (rule up_initial_state_regs)
  from assms(1) have slot: "regs (xcp tcb') ! REG_SR c = initial_sr c (up_getsr s)"
    unfolding img by (simp add: layout_ok_def)
  have "regs (xcp tcb') ! REG_SR c =
             (if CONFIG_SUPPRESS_INTERRUPTS c then up_getsr s OR 0x000000f0
              else up_getsr s AND NOT 0x000000f0)"
    unfolding slot initial_sr_def ..
  moreover have "regs (xcp tcb') ! REG_SR c AND 0x000000f0 =
             (if CONFIG_SUPPRESS_INTERRUPTS c then 0x000000f0 else 0)"
    unfolding slot by (rule initial_sr_mask)
  moreover have "regs (xcp tcb') ! REG_SR c AND NOT 0x000000f0 = up_getsr s AND NOT 0x000000f0"
    unfolding slot by (rule initial_sr_rest)
  ultimately show ?thesis using r by blast
qed

text \<open>
  The theorem under both configurations, on a status register that reads
  \<open>0x51\<close>: \<open>0x01\<close> unmasked, \<open>0xf1\<close> masked.
\<close>

theorem interrupt_policy_witness:
  "layout_ok sh1_config \<and> layout_ok masked_config \<and>
   tcbs boot_machine 0x200 = Some task5_tcb \<and> up_getsr boot_machine = 0x51 \<and>
   (\<exists>s' tcb'. up_initial_state sh1_config 0x200 boot_machine = Some s' \<and>
      tcbs s' 0x200 = Some tcb' \<and> regs (xcp tcb') ! 21 = 0x01) \<and>
   (\<exists>s' tcb'. up_initial_state masked_config 0x200 boot_machine = Some s' \<and>
      tcbs s' 0x200 = Some tcb' \<and> regs (xcp tcb') ! 21 = 0xf1)"
proof -
  have live: "up_getsr boot_machine = 0x51"
    by (simp add: up_getsr_def boot_globals)
  from interrupt_policy [OF layout_ok_sh1 boot_task5]
  have unmasked: "\<exists>s' tcb'. up_initial_state sh1_config 0x200 boot_machine = Some s' \<and>
      tcbs s' 0x200 = Some tcb' \<and> regs (xcp tcb') ! 21 = 0x01"
    by (auto simp add: live sh1_config_def)
  from interrupt_policy [OF layout_ok_masked boot_task5]
  have masked: "\<exists>s' tcb'. up_initial_state masked_config 0x200 boot_machine = Some s' \<and>
      tcbs s' 0x200 = Some tcb' \<and> regs (xcp tcb') ! 21 = 0xf1"
    by (auto simp add: live masked_config_def sh1_config_def)
  from unmasked masked live layout_ok_sh1 layout_ok_masked boot_task5 show ?thesis by simp
qed

subsection \<open>The kernel build\<close>

text \<open>
  Claim C6. With \<^verbatim>\<open>CONFIG_BUILD_KERNEL\<close> defined the translation unit stops at
  the \<^verbatim>\<open>#error\<close> directive: the build yields the error and no function.
\<close>

theorem kernel_build_rejected:
  assumes "CONFIG_BUILD_KERNEL c"
  shows "(sh1_initialstate c :: build_error + (u32 \<Rightarrow> 'a machine \<Rightarrow> 'a machine option)) =
           Inl (Error_directive ''Missing logic for the CONFIG_BUILD_KERNEL build'') \<and>
         (\<forall>f :: u32 \<Rightarrow> 'a machine \<Rightarrow> 'a machine option. sh1_initialstate c \<noteq> Inr f)"
  using assms by (simp add: sh1_initialstate_def)

text \<open>
  The theorem on a configuration that selects the kernel build.
\<close>

theorem kernel_build_rejected_witness:
  "CONFIG_BUILD_KERNEL kernel_config \<and>
   (sh1_initialstate kernel_config :: build_error + (u32 \<Rightarrow> unit machine \<Rightarrow> unit machine option)) =
     Inl (Error_directive ''Missing logic for the CONFIG_BUILD_KERNEL build'')"
proof -
  have k: "CONFIG_BUILD_KERNEL kernel_config"
    by (simp add: kernel_config_def)
  from kernel_build_rejected [where ?'a = unit, OF k] k show ?thesis by simp
qed

subsection \<open>Determinism, frame and totality\<close>

text \<open>
  Claim C7. Two tasks that are not the idle thread, with the same entry point, the
  same stack base and the same stack size, built under the same configuration and the
  same value of the status register, get the same register context image, whatever
  their save areas held before.
\<close>

theorem deterministic_image:
  assumes "layout_ok c"
    and "tcbs s1 p1 = Some tcb1" and "tcbs s2 p2 = Some tcb2"
    and "pid tcb1 \<noteq> 0" and "pid tcb2 \<noteq> 0"
    and "start tcb1 = start tcb2"
    and "stack_base_ptr tcb1 = stack_base_ptr tcb2"
    and "adj_stack_size tcb1 = adj_stack_size tcb2"
    and "up_getsr s1 = up_getsr s2"
  shows "\<exists>s1' s2' tcb1' tcb2'.
           up_initial_state c p1 s1 = Some s1' \<and> tcbs s1' p1 = Some tcb1' \<and>
           up_initial_state c p2 s2 = Some s2' \<and> tcbs s2' p2 = Some tcb2' \<and>
           xcp tcb1' = xcp tcb2'"
proof -
  let ?x = "\<lambda>s tcb. (xcp tcb)\<lparr>regs :=
        (replicate (XCPTCONTEXT_REGS c) 0)
          [REG_SP c := stack_base_ptr tcb + adj_stack_size tcb,
           REG_PC c := start tcb,
           REG_SR c := initial_sr c (sr s)]\<rparr>"
  have run1: "up_initial_state c p1 s1 = Some (s1\<lparr>tcbs := (tcbs s1)(p1 \<mapsto> tcb1\<lparr>xcp := ?x s1 tcb1\<rparr>)\<rparr>)"
    by (rule up_initial_state_task [OF assms(1,2,4)])
  have run2: "up_initial_state c p2 s2 = Some (s2\<lparr>tcbs := (tcbs s2)(p2 \<mapsto> tcb2\<lparr>xcp := ?x s2 tcb2\<rparr>)\<rparr>)"
    by (rule up_initial_state_task [OF assms(1,3,5)])
  from assms(9) have "sr s1 = sr s2" by (simp add: up_getsr_def)
  with assms(6-8) have "?x s1 tcb1 = ?x s2 tcb2"
    by simp
  with run1 run2 show ?thesis by simp
qed

text \<open>
  The theorem on tasks 5 and 6 of the concrete machine, whose save areas differ
  before the call.
\<close>

theorem deterministic_image_witness:
  "layout_ok sh1_config \<and>
   tcbs boot_machine 0x200 = Some task5_tcb \<and> tcbs boot_machine 0x300 = Some task6_tcb \<and>
   pid task5_tcb \<noteq> 0 \<and> pid task6_tcb \<noteq> 0 \<and> start task5_tcb = start task6_tcb \<and>
   stack_base_ptr task5_tcb = stack_base_ptr task6_tcb \<and>
   adj_stack_size task5_tcb = adj_stack_size task6_tcb \<and>
   xcp task5_tcb \<noteq> xcp task6_tcb \<and>
   (\<exists>s1' s2' tcb1' tcb2'.
           up_initial_state sh1_config 0x200 boot_machine = Some s1' \<and> tcbs s1' 0x200 = Some tcb1' \<and>
           up_initial_state sh1_config 0x300 boot_machine = Some s2' \<and> tcbs s2' 0x300 = Some tcb2' \<and>
           xcp tcb1' = xcp tcb2')"
proof -
  have h: "pid task5_tcb \<noteq> 0" "pid task6_tcb \<noteq> 0" "start task5_tcb = start task6_tcb"
    "stack_base_ptr task5_tcb = stack_base_ptr task6_tcb"
    "adj_stack_size task5_tcb = adj_stack_size task6_tcb"
    by (simp_all add: task5_tcb_def task6_tcb_def)
  have prior: "xcp task5_tcb \<noteq> xcp task6_tcb"
    by (simp add: task5_tcb_def task6_tcb_def replicate_22)
  from deterministic_image [OF layout_ok_sh1 boot_task5 boot_task6 h refl] h prior
    layout_ok_sh1 boot_task5 boot_task6
  show ?thesis by simp
qed

text \<open>
  Claim C8. For a task that is not the idle thread the call changes the register
  context image of its control block and nothing else: the other members of the block,
  the stack fields among them, the other control blocks, \<open>g_idle_topstack\<close> and the
  status register are as before.
\<close>

theorem only_image_mutated:
  assumes "layout_ok c" and "tcbs s p = Some tcb" and "pid tcb \<noteq> 0"
  shows "\<exists>s' tcb'. up_initial_state c p s = Some s' \<and> tcbs s' p = Some tcb' \<and>
           tcb' = tcb\<lparr>xcp := xcp tcb'\<rparr> \<and>
           stack_alloc_ptr tcb' = stack_alloc_ptr tcb \<and>
           stack_base_ptr tcb' = stack_base_ptr tcb \<and>
           adj_stack_size tcb' = adj_stack_size tcb \<and>
           s' = s\<lparr>tcbs := (tcbs s)(p \<mapsto> tcb')\<rparr> \<and>
           g_idle_topstack s' = g_idle_topstack s \<and> sr s' = sr s \<and>
           (\<forall>q. q \<noteq> p \<longrightarrow> tcbs s' q = tcbs s q)"
proof -
  let ?t = "tcb\<lparr>xcp := (xcp tcb)\<lparr>regs :=
        (replicate (XCPTCONTEXT_REGS c) 0)
          [REG_SP c := stack_base_ptr tcb + adj_stack_size tcb,
           REG_PC c := start tcb,
           REG_SR c := initial_sr c (sr s)]\<rparr>\<rparr>"
  let ?s = "s\<lparr>tcbs := (tcbs s)(p \<mapsto> ?t)\<rparr>"
  have run: "up_initial_state c p s = Some ?s"
    by (rule up_initial_state_task [OF assms])
  have at: "tcbs ?s p = Some ?t" by simp
  have same: "?t = tcb\<lparr>xcp := xcp ?t\<rparr>" by simp
  have fields: "stack_alloc_ptr ?t = stack_alloc_ptr tcb" "stack_base_ptr ?t = stack_base_ptr tcb"
    "adj_stack_size ?t = adj_stack_size tcb"
    by simp_all
  have globals: "g_idle_topstack ?s = g_idle_topstack s" "sr ?s = sr s"
    by simp_all
  have others: "\<forall>q. q \<noteq> p \<longrightarrow> tcbs ?s q = tcbs s q"
    by simp
  from run at same fields globals others show ?thesis by blast
qed

text \<open>
  The theorem on task 5 of the concrete machine.
\<close>

theorem only_image_mutated_witness:
  "layout_ok sh1_config \<and> tcbs boot_machine 0x200 = Some task5_tcb \<and> pid task5_tcb \<noteq> 0 \<and>
   (\<exists>s' tcb'. up_initial_state sh1_config 0x200 boot_machine = Some s' \<and>
      tcbs s' 0x200 = Some tcb' \<and> tcb' = task5_tcb\<lparr>xcp := xcp tcb'\<rparr> \<and>
      stack_alloc_ptr tcb' = 0x2000 \<and> stack_base_ptr tcb' = 0x2000 \<and>
      adj_stack_size tcb' = 0x400 \<and>
      g_idle_topstack s' = 0x8000 \<and> sr s' = 0x51 \<and>
      tcbs s' 0x100 = Some idle_tcb \<and> tcbs s' 0x300 = Some task6_tcb)"
proof -
  have n: "pid task5_tcb \<noteq> 0" by (simp add: task5_tcb_def)
  from only_image_mutated [OF layout_ok_sh1 boot_task5 n] obtain s' tcb' where
    r: "up_initial_state sh1_config 0x200 boot_machine = Some s'" "tcbs s' 0x200 = Some tcb'"
      "tcb' = task5_tcb\<lparr>xcp := xcp tcb'\<rparr>"
      "stack_alloc_ptr tcb' = stack_alloc_ptr task5_tcb"
      "stack_base_ptr tcb' = stack_base_ptr task5_tcb"
      "adj_stack_size tcb' = adj_stack_size task5_tcb"
      "g_idle_topstack s' = g_idle_topstack boot_machine" "sr s' = sr boot_machine"
      "\<forall>q. q \<noteq> 0x200 \<longrightarrow> tcbs s' q = tcbs boot_machine q"
    by blast
  from r(9) have "tcbs s' 0x100 = Some idle_tcb" "tcbs s' 0x300 = Some task6_tcb"
    by (simp_all add: boot_idle boot_task6)
  with r n layout_ok_sh1 boot_task5 show ?thesis
    by (simp add: boot_globals task5_tcb_def)
qed

text \<open>
  Claim C9. On a control block the call always returns: the function has no error
  path, and the block is still there afterwards.
\<close>

theorem construction_succeeds:
  assumes "layout_ok c" and "tcbs s p = Some tcb"
  shows "\<exists>s'. up_initial_state c p s = Some s' \<and> p \<in> dom (tcbs s')"
proof -
  from assms obtain s' tcb' where "up_initial_state c p s = Some s'" and "tcbs s' p = Some tcb'"
    by (rule up_initial_state_regs)
  then show ?thesis by blast
qed

text \<open>
  The theorem on task 5 of the concrete machine.
\<close>

theorem construction_succeeds_witness:
  "layout_ok sh1_config \<and> tcbs boot_machine 0x200 = Some task5_tcb \<and>
   (\<exists>s'. up_initial_state sh1_config 0x200 boot_machine = Some s' \<and> 0x200 \<in> dom (tcbs s'))"
  using construction_succeeds [OF layout_ok_sh1 boot_task5] layout_ok_sh1 boot_task5
  by simp

end
